theory Spec2Isabelle
  imports Complex_Main
begin

section \<open>CTCL gene explorer: a model of one render pass of \<open>app.py\<close>\<close>

text \<open>
  The script \<open>app.py\<close> is executed from top to bottom on every user interaction.  One such
  execution (a render pass) is modelled as a function of the dataset handle, the stored
  session state and the state of the widgets, returning the elements handed to the display
  layer in the order of the script, the session state left behind, and the exception
  that ended the pass, if any.

  Modelling decisions.
  \<^item> Text is \<open>string\<close>; the symbols outside ASCII in the script's literals are written as
    their UTF-8 bytes.  Python's \<open>str.upper\<close> is modelled on the ASCII letters only.
  \<^item> A floating-point number is either not-a-number or a real number: comparisons with
    not-a-number are false and arithmetic on it gives not-a-number, as in IEEE 754;
    rounding and infinities are not modelled.
  \<^item> An f-string with a formatted number in it is an element with the number as a field.
  \<^item> A figure is the call that draws it, with its arguments; what the plotting libraries
    do with the call is not modelled.
  \<^item> The page configuration, the style sheet and the spinner (lines 9 to 34 and 44 of the
    script) are constant and have no part in the model.
\<close>

subsection \<open>Floating-point values\<close>

datatype fl = NaN | Fin real

fun fl_gt :: "fl \<Rightarrow> fl \<Rightarrow> bool" where
  "fl_gt (Fin a) (Fin b) = (b < a)"
| "fl_gt _ _ = False"


fun fl_sub :: "fl \<Rightarrow> fl \<Rightarrow> fl" where
  "fl_sub (Fin a) (Fin b) = Fin (a - b)"
| "fl_sub _ _ = NaN"

subsection \<open>Text\<close>

definition ascii_lowercase :: string where
  "ascii_lowercase = ''abcdefghijklmnopqrstuvwxyz''"

definition ascii_uppercase :: string where
  "ascii_uppercase = ''ABCDEFGHIJKLMNOPQRSTUVWXYZ''"

definition upper_char :: "char \<Rightarrow> char" where
  "upper_char c =
     (case map_of (zip ascii_lowercase ascii_uppercase) c of Some u \<Rightarrow> u | None \<Rightarrow> c)"

text \<open>\<open>str.upper()\<close>\<close>

definition upper :: "string \<Rightarrow> string" where
  "upper s = map upper_char s"

text \<open>The symbols of the script's literals that are not ASCII, as UTF-8.\<close>

definition cross_mark :: string where
  "cross_mark = [CHR 0xE2, CHR 0x9D, CHR 0x8C]"

definition round_pushpin :: string where
  "round_pushpin = [CHR 0xF0, CHR 0x9F, CHR 0x93, CHR 0x8D]"

definition bar_chart :: string where
  "bar_chart = [CHR 0xF0, CHR 0x9F, CHR 0x93, CHR 0x8A]"

definition light_bulb :: string where
  "light_bulb = [CHR 0xF0, CHR 0x9F, CHR 0x92, CHR 0xA1]"

definition dna :: string where
  "dna = [CHR 0xF0, CHR 0x9F, CHR 0xA7, CHR 0xAC]"

definition high_voltage :: string where
  "high_voltage = [CHR 0xE2, CHR 0x9A, CHR 0xA1]"

subsection \<open>The dataset handle\<close>

text \<open>
  The annotated matrix read from the file: the feature index \<open>var_names\<close>, and for each
  cell its clinical condition (\<open>obs['condition']\<close>), its embedding coordinates
  (\<open>obsm['X_umap']\<close>) and its row of the matrix \<open>X\<close>, a value for each gene symbol of the
  index.  The library keeps the number of annotation rows, matrix rows and coordinate
  pairs equal; here they are equal by construction.  \<open>X_format\<close> is how \<open>X\<close> is stored:
  a sparse matrix, a dense array, or no matrix at all (\<open>X\<close> is \<open>None\<close>).
\<close>

datatype matrix_format = Sparse | Dense | Absent

record cell =
  condition :: string
  umap_xy :: "real \<times> real"
  expression :: "string \<Rightarrow> fl"

record adata =
  var_names :: "string list"
  cells :: "cell list"
  X_format :: matrix_format

definition n_obs :: "adata \<Rightarrow> nat" where
  "n_obs d = length (cells d)"

definition n_vars :: "adata \<Rightarrow> nat" where
  "n_vars d = length (var_names d)"

datatype exn = AttributeError | FileNotFoundError

subsection \<open>Dataset loading\<close>

text \<open>
  \<open>load_data\<close> is decorated with \<open>st.cache_resource\<close>: the process keeps the value the
  function returned, and a later call returns that value without running the body.  A
  call that raises stores nothing.  The process state is the cached handle and the log
  of the files read.
\<close>

type_synonym filesystem = "string \<Rightarrow> adata option"

record process =
  cache :: "adata option"
  file_reads :: "string list"

definition read_h5ad :: "filesystem \<Rightarrow> string \<Rightarrow> process \<Rightarrow> (exn + adata) \<times> process" where
  "read_h5ad fs path p =
     (let p' = p\<lparr>file_reads := file_reads p @ [path]\<rparr>
      in case fs path of None \<Rightarrow> (Inl FileNotFoundError, p') | Some d \<Rightarrow> (Inr d, p'))"

definition load_data :: "filesystem \<Rightarrow> process \<Rightarrow> (exn + adata) \<times> process" where
  "load_data fs p =
     (case cache p of
        Some d \<Rightarrow> (Inr d, p)
      | None \<Rightarrow>
          (case read_h5ad fs ''ctcl_app_light.h5ad'' p of
             (Inl e, p') \<Rightarrow> (Inl e, p')
           | (Inr d, p') \<Rightarrow> (Inr d, p'\<lparr>cache := Some d\<rparr>)))"

text \<open>\<open>n\<close> invocations one after the other: the results, and the process state at the end.\<close>

fun load_data_times :: "nat \<Rightarrow> filesystem \<Rightarrow> process \<Rightarrow> (exn + adata) list \<times> process" where
  "load_data_times 0 fs p = ([], p)"
| "load_data_times (Suc n) fs p =
     (case load_data fs p of (r, p') \<Rightarrow>
        (case load_data_times n fs p' of (rs, p'') \<Rightarrow> (r # rs, p'')))"

definition fresh_process :: process where
  "fresh_process = \<lparr>cache = None, file_reads = []\<rparr>"

subsection \<open>Selection state\<close>

text \<open>
  \<open>st.session_state\<close> holds at most the key \<open>'gene'\<close>: \<open>None\<close> is a session without it.
  A button returns true in the pass that its click started.  The text input returns the
  text the user entered, and its \<open>value\<close> argument when the user entered none.
\<close>

type_synonym session_state = "string option"

record buttons =
  tox_button :: bool
  ccr4_button :: bool
  cd3e_button :: bool
  mki67_button :: bool

datatype view = GeneExpression | ClinicalCondition

record widgets =
  clicked :: buttons
  typed :: "string option"
  view_option :: view

definition init_gene :: "session_state \<Rightarrow> string" where
  "init_gene s = (case s of None \<Rightarrow> ''TOX'' | Some g \<Rightarrow> g)"

definition quick_select :: "buttons \<Rightarrow> string \<Rightarrow> string" where
  "quick_select b g0 =
     (let g1 = (if tox_button b then ''TOX'' else g0);
          g2 = (if ccr4_button b then ''CCR4'' else g1);
          g3 = (if cd3e_button b then ''CD3E'' else g2);
          g4 = (if mki67_button b then ''MKI67'' else g3)
      in g4)"

definition text_input :: "string option \<Rightarrow> string \<Rightarrow> string" where
  "text_input entered val = (case entered of None \<Rightarrow> val | Some t \<Rightarrow> t)"

subsection \<open>Figures and page elements\<close>

datatype colormap = Cmap string | Palette string

record row =
  Expression :: fl
  Condition :: string

datatype figure =
    Umap "(real \<times> real) list" string colormap string bool
  | Violin "row list"

text \<open>
  \<open>Umap points color colors title legend_outside\<close> is the call of \<open>sc.pl.umap\<close> on the
  handle, followed by \<open>ax.legend\<close> outside the axes when the flag is set;
  \<open>Violin df\<close> is \<open>sns.violinplot\<close> on the table with \<open>x = 'Condition'\<close> and
  \<open>y = 'Expression'\<close>.
\<close>

datatype element =
    Title string
  | Header string
  | Subheader string
  | Markdown string
  | Info string
  | ErrorMessage string
  | Caption nat nat
  | Button string
  | TextInput string string
  | Radio string "string list"
  | Pyplot figure
  | InsightCard string string fl fl string
  | Sidebar element

text \<open>
  A widget is the call that creates it: \<open>TextInput label value\<close>, \<open>Radio label options\<close>;
  what the user did with it is in the record \<open>widgets\<close>.  \<open>Caption n_obs n_vars\<close> is the
  dataset summary of lines 75 to 80, and
  \<open>InsightCard color gene mean_tumor mean_eczema trend\<close> is the markup block of lines 181 to
  190, each with its holes as fields.  \<open>Sidebar e\<close> is \<open>e\<close> drawn in the sidebar.
\<close>

subsection \<open>Expression values\<close>

text \<open>
  \<open>adata[:, gene].X\<close> is the column of the gene.  A sparse matrix has \<open>toarray\<close>; a dense
  array has no \<open>toarray\<close> but has \<open>flatten\<close>; \<open>None\<close> has neither.
\<close>

definition column :: "adata \<Rightarrow> string \<Rightarrow> fl list" where
  "column d g = map (\<lambda>c. expression c g) (cells d)"

definition toarray_flatten :: "adata \<Rightarrow> string \<Rightarrow> exn + fl list" where
  "toarray_flatten d g =
     (case X_format d of Sparse \<Rightarrow> Inr (column d g) | Dense \<Rightarrow> Inl AttributeError
      | Absent \<Rightarrow> Inl AttributeError)"

definition flatten_direct :: "adata \<Rightarrow> string \<Rightarrow> exn + fl list" where
  "flatten_direct d g =
     (case X_format d of Sparse \<Rightarrow> Inl AttributeError | Dense \<Rightarrow> Inr (column d g)
      | Absent \<Rightarrow> Inl AttributeError)"

text \<open>Lines 136 to 140: the \<open>try\<close>, and the bare \<open>except\<close> with the second read.\<close>

definition expression_values :: "adata \<Rightarrow> string \<Rightarrow> exn + fl list" where
  "expression_values d g =
     (case toarray_flatten d g of Inr v \<Rightarrow> Inr v | Inl e \<Rightarrow> flatten_direct d g)"

definition df_plot :: "adata \<Rightarrow> fl list \<Rightarrow> row list" where
  "df_plot d vals =
     map (\<lambda>(v, c). \<lparr>Expression = v, Condition = condition c\<rparr>) (zip vals (cells d))"

subsection \<open>Insight\<close>

text \<open>
  \<open>Series.mean()\<close> leaves the not-a-number entries out, and is not-a-number when nothing
  is left; it does not raise on an empty selection.
\<close>

fun finite_values :: "fl list \<Rightarrow> real list" where
  "finite_values [] = []"
| "finite_values (NaN # xs) = finite_values xs"
| "finite_values (Fin x # xs) = x # finite_values xs"

definition series_mean :: "fl list \<Rightarrow> fl" where
  "series_mean xs =
     (let ys = finite_values xs
      in if ys = [] then NaN else Fin (sum_list ys / real (length ys)))"

definition group_mean :: "row list \<Rightarrow> string \<Rightarrow> fl" where
  "group_mean df label = series_mean (map Expression (filter (\<lambda>r. Condition r = label) df))"

text \<open>Lines 169 to 179: the trend and its color.\<close>

definition classify :: "fl \<Rightarrow> fl \<Rightarrow> string \<times> string" where
  "classify mean_tumor mean_eczema =
     (if fl_gt mean_tumor mean_eczema then
        (let diff = fl_sub mean_tumor mean_eczema
         in if fl_gt diff (Fin 0.5) then (''SIGNIFICANTLY HIGHER'', ''#d9534f'')
            else (''Slightly Higher'', ''#f0ad4e''))
      else (''Lower or Same'', ''#5cb85c''))"

text \<open>The body of the \<open>try\<close> of line 165, and the \<open>try\<close> with its handler.\<close>

definition insight_body :: "string \<Rightarrow> row list \<Rightarrow> exn + element" where
  "insight_body gene_input df =
     (let mean_tumor = group_mean df ''CTCL (Tumor)'';
          mean_eczema = group_mean df ''Eczema (Benign)''
      in case classify mean_tumor mean_eczema of
           (trend, color) \<Rightarrow> Inr (InsightCard color gene_input mean_tumor mean_eczema trend))"

definition insight :: "string \<Rightarrow> row list \<Rightarrow> element" where
  "insight gene_input df =
     (case insight_body gene_input df of
        Inr shown_card \<Rightarrow> shown_card
      | Inl e \<Rightarrow> Info ''Insufficient data for automated insight.'')"

subsection \<open>The render pass\<close>

definition not_found_message :: "string \<Rightarrow> string" where
  "not_found_message gene_input =
     cross_mark @ '' Gene '' @ [CHR 0x27] @ gene_input @ [CHR 0x27] @
     '' not found. Note: This lightweight app only contains top ~5,000 variable genes and clinical markers.''"

definition umap_figure :: "adata \<Rightarrow> string \<Rightarrow> view \<Rightarrow> figure" where
  "umap_figure d gene_input v =
     (case v of
        GeneExpression \<Rightarrow>
          Umap (map umap_xy (cells d)) gene_input (Cmap ''viridis'')
            (gene_input @ '' Expression'') False
      | ClinicalCondition \<Rightarrow>
          Umap (map umap_xy (cells d)) ''condition'' (Palette ''Set1'')
            ''Clinical Diagnosis'' True)"

text \<open>Lines 83 to 193: the elements shown, and the exception that ended the pass.\<close>

definition main_dashboard :: "adata \<Rightarrow> string \<Rightarrow> view \<Rightarrow> element list \<times> exn option" where
  "main_dashboard d gene_input v =
     (let title = Title (''Gene Expression: *'' @ gene_input @ ''*'')
      in if gene_input \<notin> set (var_names d) then
           ([title, ErrorMessage (not_found_message gene_input)], None)
         else
           (let landscape =
                  [Subheader (round_pushpin @ '' Single-Cell Landscape''),
                   Radio ''Color Cells By:'' [''Gene Expression'', ''Clinical Condition''],
                   Pyplot (umap_figure d gene_input v)];
                comparison =
                  [Subheader (bar_chart @ '' Clinical Comparison''),
                   Markdown ''Expression levels by Diagnosis.'']
            in case expression_values d gene_input of
                 Inl e \<Rightarrow> (title # landscape @ comparison, Some e)
               | Inr vals \<Rightarrow>
                   (let df = df_plot d vals
                    in (title # landscape @ comparison @
                          [Pyplot (Violin df),
                           Markdown ''---'',
                           Subheader (light_bulb @ '' Analysis Interpretation''),
                           insight gene_input df],
                        None))))"

record pass =
  shown :: "element list"
  stored :: session_state
  raised :: "exn option"

text \<open>Lines 53 to 67: the stored gene after the buttons.\<close>

definition stored_gene :: "session_state \<Rightarrow> buttons \<Rightarrow> string" where
  "stored_gene s b = quick_select b (init_gene s)"

text \<open>Lines 48 to 80: the sidebar, with the stored gene as the value of the text input.\<close>

definition sidebar :: "adata \<Rightarrow> string \<Rightarrow> element list" where
  "sidebar d gene =
     map Sidebar
       [Title (dna @ '' CTCL Explorer''),
        Info ''Compare **Tumor** vs. **Eczema** vs. **Normal**.'',
        Header ''Gene Selection'',
        Markdown (''### '' @ high_voltage @ '' Quick Select''),
        Button ''TOX (Exhaustion)'',
        Button ''CCR4 (Target)'',
        Button ''CD3E (T-Cell)'',
        Button ''MKI67 (Prolif.)'',
        TextInput ''Or type a gene symbol:'' gene,
        Markdown ''---'',
        Caption (n_obs d) (n_vars d)]"

definition render :: "adata \<Rightarrow> session_state \<Rightarrow> widgets \<Rightarrow> pass" where
  "render d s w =
     (let gene = stored_gene s (clicked w);
          gene_input = upper (text_input (typed w) gene)
      in case main_dashboard d gene_input (view_option w) of
           (els, err) \<Rightarrow>
             \<lparr>shown = sidebar d gene @ els, stored = Some gene, raised = err\<rparr>)"

text \<open>The gene symbol that a pass looks up and renders.\<close>

definition gene_input_of :: "session_state \<Rightarrow> widgets \<Rightarrow> string" where
  "gene_input_of s w = upper (text_input (typed w) (stored_gene s (clicked w)))"

text \<open>What a pass shows, by kind.\<close>

fun is_embedding_plot :: "element \<Rightarrow> bool" where
  "is_embedding_plot (Pyplot (Umap pts col cm t lg)) = True"
| "is_embedding_plot _ = False"

fun is_distribution_plot :: "element \<Rightarrow> bool" where
  "is_distribution_plot (Pyplot (Violin df)) = True"
| "is_distribution_plot _ = False"

fun is_insight_card :: "element \<Rightarrow> bool" where
  "is_insight_card (InsightCard col g mt me tr) = True"
| "is_insight_card _ = False"


subsection \<open>Letter case\<close>




subsection \<open>Sample handles and widget states\<close>

definition sample_cell :: "string \<Rightarrow> real \<Rightarrow> cell" where
  "sample_cell c x = \<lparr>condition = c, umap_xy = (0, 0), expression = (\<lambda>g. Fin x)\<rparr>"

definition sample_adata :: "matrix_format \<Rightarrow> adata" where
  "sample_adata f =
     \<lparr>var_names = [''TOX'', ''CCR4''],
      cells = [sample_cell ''CTCL (Tumor)'' 2, sample_cell ''CTCL (Tumor)'' 3,
               sample_cell ''Eczema (Benign)'' 1, sample_cell ''Normal'' 0],
      X_format = f\<rparr>"

definition no_tumor_adata :: adata where
  "no_tumor_adata =
     \<lparr>var_names = [''TOX'', ''CCR4''],
      cells = [sample_cell ''Eczema (Benign)'' 1, sample_cell ''Normal'' 2],
      X_format = Sparse\<rparr>"

definition mixed_case_adata :: adata where
  "mixed_case_adata =
     \<lparr>var_names = [''Tox'', ''TOX''],
      cells = [sample_cell ''CTCL (Tumor)'' 2, sample_cell ''Eczema (Benign)'' 1],
      X_format = Sparse\<rparr>"


definition sample_files :: filesystem where
  "sample_files path =
     (if path = ''ctcl_app_light.h5ad'' then Some (sample_adata Sparse) else None)"

definition no_click :: buttons where
  "no_click =
     \<lparr>tox_button = False, ccr4_button = False, cd3e_button = False, mki67_button = False\<rparr>"

definition untouched :: widgets where
  "untouched = \<lparr>clicked = no_click, typed = None, view_option = GeneExpression\<rparr>"

section \<open>Auxiliary facts\<close>

subsection \<open>Letter case\<close>











lemmas sample_defs = sample_cell_def sample_adata_def no_tumor_adata_def mixed_case_adata_def
  no_click_def untouched_def
lemmas text_defs = upper_def upper_char_def ascii_lowercase_def ascii_uppercase_def
lemmas pass_defs = render_def main_dashboard_def sidebar_def stored_gene_def init_gene_def
  quick_select_def text_input_def gene_input_of_def expression_values_def toarray_flatten_def
  flatten_direct_def column_def df_plot_def insight_def insight_body_def group_mean_def
  series_mean_def classify_def umap_figure_def not_found_message_def n_obs_def n_vars_def
  Let_def

subsection \<open>The pass, field by field\<close>

lemma shown_render:
  "shown (render d s w) =
     sidebar d (stored_gene s (clicked w)) @
     fst (main_dashboard d (gene_input_of s w) (view_option w))"
  by (simp add: render_def gene_input_of_def Let_def split: prod.splits)

lemma raised_render:
  "raised (render d s w) = snd (main_dashboard d (gene_input_of s w) (view_option w))"
  by (simp add: render_def gene_input_of_def Let_def split: prod.splits)


lemma sidebar_no_plot:
  "filter is_embedding_plot (sidebar d g) = []"
  "filter is_distribution_plot (sidebar d g) = []"
  "filter is_insight_card (sidebar d g) = []"
  by (simp_all add: sidebar_def)

lemma is_insight_card_insight: "is_insight_card (insight g df)"
  by (simp add: insight_def insight_body_def Let_def split: prod.splits)

lemma series_mean_empty: "series_mean [] = NaN"
  by (simp add: series_mean_def)

lemma classify_NaN:
  "classify NaN me = (''Lower or Same'', ''#5cb85c'')"
  "classify mt NaN = (''Lower or Same'', ''#5cb85c'')"
  by (cases mt; simp add: classify_def)+

lemma insight_empty_group:
  assumes "filter (\<lambda>r. Condition r = ''CTCL (Tumor)'') df = [] \<or>
           filter (\<lambda>r. Condition r = ''Eczema (Benign)'') df = []"
  shows "insight g df =
           InsightCard ''#5cb85c'' g (group_mean df ''CTCL (Tumor)'')
             (group_mean df ''Eczema (Benign)'') ''Lower or Same''"
proof -
  from assms have "group_mean df ''CTCL (Tumor)'' = NaN \<or> group_mean df ''Eczema (Benign)'' = NaN"
    by (auto simp: group_mean_def series_mean_empty)
  then have "classify (group_mean df ''CTCL (Tumor)'') (group_mean df ''Eczema (Benign)'') =
      (''Lower or Same'', ''#5cb85c'')"
    by (auto simp: classify_NaN)
  then show ?thesis
    by (simp add: insight_def insight_body_def Let_def)
qed




lemma main_dashboard_not_found:
  "g \<notin> set (var_names d) \<Longrightarrow>
   main_dashboard d g v =
     ([Title (''Gene Expression: *'' @ g @ ''*''), ErrorMessage (not_found_message g)], None)"
  by (simp add: main_dashboard_def)




subsection \<open>The loader\<close>

lemma load_data_cached: "cache p = Some d \<Longrightarrow> load_data fs p = (Inr d, p)"
  by (simp add: load_data_def)

lemma load_data_times_cached:
  "cache p = Some d \<Longrightarrow> load_data_times n fs p = (replicate n (Inr d), p)"
  by (induction n) (simp_all add: load_data_cached)

lemma load_data_first:
  "fs ''ctcl_app_light.h5ad'' = Some d \<Longrightarrow>
   load_data fs fresh_process =
     (Inr d, \<lparr>cache = Some d, file_reads = [''ctcl_app_light.h5ad'']\<rparr>)"
  by (simp add: load_data_def read_h5ad_def fresh_process_def)

subsection \<open>The two views\<close>





section \<open>Properties\<close>



text \<open>
  C2.  The claim: when the table has no row of condition \<open>CTCL (Tumor)\<close>, or none of
  condition \<open>Eczema (Benign)\<close>, the pass shows the notice of insufficient data in place
  of the summary.  The script does not: the mean of an empty selection is not-a-number,
  nothing is raised, the comparison of line 169 is false, and the summary is shown with
  the tier \<open>Lower or Same\<close> (\<open>insight_empty_group\<close> above, for every table).  Here on a
  handle with one eczema cell, one normal cell and no tumor cell; the pass does end
  without an exception.
\<close>

theorem insight_without_tumor_rows:
  "filter (\<lambda>r. Condition r = ''CTCL (Tumor)'')
     (df_plot no_tumor_adata (column no_tumor_adata ''TOX'')) = [] \<and>
   gene_input_of None untouched = ''TOX'' \<and>
   raised (render no_tumor_adata None untouched) = None \<and>
   last (shown (render no_tumor_adata None untouched)) =
     InsightCard ''#5cb85c'' ''TOX'' NaN (Fin 1) ''Lower or Same'' \<and>
   Info ''Insufficient data for automated insight.'' \<notin>
     set (shown (render no_tumor_adata None untouched))"
  by (simp add: sample_defs text_defs pass_defs)

text \<open>
  C3.  When the gene symbol of the pass (the text in capitals) is not in the feature
  index, the pass shows, after the sidebar and the title, an error message that names
  the gene and says that the app holds a reduced set of genes, and nothing else: no
  embedding plot, no distribution plot, no insight summary.
\<close>

theorem gene_not_found:
  assumes "gene_input_of s w \<notin> set (var_names d)"
  shows "shown (render d s w) =
           sidebar d (stored_gene s (clicked w)) @
           [Title (''Gene Expression: *'' @ gene_input_of s w @ ''*''),
            ErrorMessage
              (cross_mark @ '' Gene '' @ [CHR 0x27] @ gene_input_of s w @ [CHR 0x27] @
               '' not found. Note: This lightweight app only contains top ~5,000 variable genes and clinical markers.'')] \<and>
         filter is_embedding_plot (shown (render d s w)) = [] \<and>
         filter is_distribution_plot (shown (render d s w)) = [] \<and>
         filter is_insight_card (shown (render d s w)) = [] \<and>
         raised (render d s w) = None"
  using assms
  by (simp add: shown_render raised_render main_dashboard_not_found sidebar_no_plot
      not_found_message_def)

text \<open>
  The same on the sample handle, for the text \<open>brca1\<close>.
\<close>

theorem gene_not_found_witness:
  "gene_input_of None (untouched\<lparr>typed := Some ''brca1''\<rparr>) \<notin>
     set (var_names (sample_adata Sparse)) \<and>
   shown (render (sample_adata Sparse) None (untouched\<lparr>typed := Some ''brca1''\<rparr>)) =
     sidebar (sample_adata Sparse) ''TOX'' @
     [Title ''Gene Expression: *BRCA1*'',
      ErrorMessage
        (cross_mark @
         '' Gene 'BRCA1' not found. Note: This lightweight app only contains top ~5,000 variable genes and clinical markers.'')] \<and>
   filter is_embedding_plot
     (shown (render (sample_adata Sparse) None (untouched\<lparr>typed := Some ''brca1''\<rparr>))) = []"
proof -
  have g: "gene_input_of None (untouched\<lparr>typed := Some ''brca1''\<rparr>) = ''BRCA1''"
    by (simp add: gene_input_of_def text_input_def untouched_def text_defs)
  have h: "gene_input_of None (untouched\<lparr>typed := Some ''brca1''\<rparr>) \<notin>
     set (var_names (sample_adata Sparse))"
    by (simp add: g sample_adata_def)
  have st: "stored_gene None (clicked untouched) = ''TOX''"
    by (simp add: stored_gene_def init_gene_def quick_select_def untouched_def no_click_def)
  from gene_not_found [OF h] h show ?thesis
    by (simp add: g st sidebar_no_plot)
qed






text \<open>
  C6.  Loading is idempotent within a process: when the file can be read, the first
  invocation reads it, and each of any number of invocations after it returns the same
  handle; at the end the log of file reads holds that one read.
\<close>

theorem load_data_idempotent:
  assumes "fs ''ctcl_app_light.h5ad'' = Some d"
  shows "load_data_times (Suc n) fs fresh_process =
           (replicate (Suc n) (Inr d),
            \<lparr>cache = Some d, file_reads = [''ctcl_app_light.h5ad'']\<rparr>)"
  using assms by (simp add: load_data_first load_data_times_cached)

text \<open>
  The same for three invocations on a file system that holds the sample handle.
\<close>

theorem load_data_idempotent_witness:
  "sample_files ''ctcl_app_light.h5ad'' = Some (sample_adata Sparse) \<and>
   load_data_times 3 sample_files fresh_process =
     ([Inr (sample_adata Sparse), Inr (sample_adata Sparse), Inr (sample_adata Sparse)],
      \<lparr>cache = Some (sample_adata Sparse), file_reads = [''ctcl_app_light.h5ad'']\<rparr>)"
proof -
  have h: "sample_files ''ctcl_app_light.h5ad'' = Some (sample_adata Sparse)"
    by (simp add: sample_files_def)
  have n: "(3::nat) = Suc 2" by simp
  from load_data_idempotent [where fs = sample_files and d = "sample_adata Sparse" and n = 2] h
  show ?thesis
    unfolding n by (simp add: numeral_2_eq_2)
qed










end
